theory Spec2Isabelle
  imports Complex_Main "HOL-Library.Word"
begin

section \<open>The move classes of move.h and the sector each constructor declares\<close>

text \<open>
  The enum \<open>ensemble\<close> is declared in common.h, which is not among the sources. Its
  enumerators here are the three that move.h names as default arguments, \<open>ANY\<close>,
  \<open>DIAGONAL\<close> and \<open>OFFDIAGONAL\<close>; the specification lists the same three.
\<close>

datatype ensemble = ANY | DIAGONAL | OFFDIAGONAL

text \<open>The classes that move.h declares, base classes included.\<close>

datatype move_class =
    MoveBase
  | DisplaceMove
  | EndStagingMove
  | MidStagingMove
  | SwapBreakMove
  | CenterOfMassMove
  | StagingMove
  | BisectionMove
  | OpenMove
  | CanonicalOpenMove
  | CloseMove
  | CanonicalCloseMove
  | InsertMove
  | RemoveMove
  | AdvanceHeadMove
  | AdvanceTailMove
  | RecedeHeadMove
  | RecedeTailMove
  | SwapMoveBase
  | SwapHeadMove
  | SwapTailMove

text \<open>
  Every constructor is declared as
  \<^verbatim>\<open>C(Path &, ActionBase *, MTRand &, ensemble _operateOnConfig=E [, bool _varLength=B])\<close>.
  \<open>default_operateOnConfig\<close> is the default argument \<open>E\<close> of each declaration, in the
  order of the header.
\<close>

fun default_operateOnConfig :: "move_class \<Rightarrow> ensemble" where
  "default_operateOnConfig MoveBase = ANY"
| "default_operateOnConfig DisplaceMove = ANY"
| "default_operateOnConfig EndStagingMove = ANY"
| "default_operateOnConfig MidStagingMove = ANY"
| "default_operateOnConfig SwapBreakMove = ANY"
| "default_operateOnConfig CenterOfMassMove = ANY"
| "default_operateOnConfig StagingMove = ANY"
| "default_operateOnConfig BisectionMove = ANY"
| "default_operateOnConfig OpenMove = DIAGONAL"
| "default_operateOnConfig CanonicalOpenMove = DIAGONAL"
| "default_operateOnConfig CloseMove = OFFDIAGONAL"
| "default_operateOnConfig CanonicalCloseMove = OFFDIAGONAL"
| "default_operateOnConfig InsertMove = DIAGONAL"
| "default_operateOnConfig RemoveMove = OFFDIAGONAL"
| "default_operateOnConfig AdvanceHeadMove = OFFDIAGONAL"
| "default_operateOnConfig AdvanceTailMove = OFFDIAGONAL"
| "default_operateOnConfig RecedeHeadMove = OFFDIAGONAL"
| "default_operateOnConfig RecedeTailMove = OFFDIAGONAL"
| "default_operateOnConfig SwapMoveBase = OFFDIAGONAL"
| "default_operateOnConfig SwapHeadMove = OFFDIAGONAL"
| "default_operateOnConfig SwapTailMove = OFFDIAGONAL"

text \<open>
  The default argument \<open>B\<close> of the parameter \<open>_varLength\<close>; \<open>None\<close> for a constructor
  that has no such parameter.
\<close>

fun default_varLength :: "move_class \<Rightarrow> bool option" where
  "default_varLength MoveBase = Some False"
| "default_varLength OpenMove = Some True"
| "default_varLength CanonicalOpenMove = Some True"
| "default_varLength CloseMove = Some True"
| "default_varLength CanonicalCloseMove = Some True"
| "default_varLength InsertMove = Some True"
| "default_varLength RemoveMove = Some True"
| "default_varLength AdvanceHeadMove = Some True"
| "default_varLength AdvanceTailMove = Some True"
| "default_varLength RecedeHeadMove = Some True"
| "default_varLength RecedeTailMove = Some True"
| "default_varLength c = None"

text \<open>
  The values the two trailing parameters have inside a constructor call. C++ fills an
  omitted trailing argument with the declared default: \<open>None\<close> stands for an argument the
  caller omits, \<open>Some v\<close> for one the caller writes. A \<open>_varLength\<close> written for a
  constructor that has no such parameter does not compile, and the model drops it.
\<close>

record ctor_args =
  operateOnConfig_arg :: ensemble
  varLength_arg :: "bool option"

definition constructor_call :: "move_class \<Rightarrow> ensemble option \<Rightarrow> bool option \<Rightarrow> ctor_args" where
  "constructor_call c e b =
     \<lparr> operateOnConfig_arg = (case e of None \<Rightarrow> default_operateOnConfig c | Some x \<Rightarrow> x),
       varLength_arg =
         (case default_varLength c of
            None \<Rightarrow> None
          | Some d \<Rightarrow> (case b of None \<Rightarrow> Some d | Some y \<Rightarrow> Some y)) \<rparr>"


section \<open>The statistics of a move and its diagnostic accessors (move.h, class MoveBase)\<close>

text \<open>
  The counters are \<open>uint32\<close>; the typedef is in common.h, which is not among the sources,
  and the name fixes the width.
\<close>

type_synonym uint32 = "32 word"

text \<open>
  The counters of one move instance (\<open>numAccepted\<close>, \<open>numAttempted\<close> and the two
  level-resolved arrays) and the two static counters shared by all instances.
\<close>

record move_counters =
  numAccepted :: uint32
  numAttempted :: uint32
  numAcceptedLevel :: "uint32 list"
  numAttemptedLevel :: "uint32 list"

record static_counters =
  totAccepted :: uint32
  totAttempted :: uint32

text \<open>
  The value of a \<open>double\<close> expression. Rounding is not modelled: a finite result is the
  exact real. What is modelled is the outcome of a division whose divisor is zero, which
  in IEEE arithmetic does not trap but yields an infinity or a NaN.
\<close>

datatype double = Finite real | PlusInfinity | MinusInfinity | NaN

definition double_div :: "real \<Rightarrow> real \<Rightarrow> double" where
  "double_div x y =
     (if y = 0 then (if x = 0 then NaN else if 0 < x then PlusInfinity else MinusInfinity)
      else Finite (x / y))"

text \<open>The conversion of a counter in \<open>1.0*n\<close>.\<close>

definition to_double :: "uint32 \<Rightarrow> real" where
  "to_double n = 1 * real (unat n)"

text \<open>\<^verbatim>\<open>return (numAttempted == 0 ? 0.0 : 1.0*numAccepted/(1.0*numAttempted));\<close>\<close>

definition getAcceptanceRatio :: "move_counters \<Rightarrow> double" where
  "getAcceptanceRatio m =
     (if numAttempted m = 0 then Finite 0
      else double_div (to_double (numAccepted m)) (to_double (numAttempted m)))"

text \<open>\<^verbatim>\<open>return (totAttempted == 0 ? 0.0 : 1.0*totAccepted/(1.0*totAttempted));\<close>\<close>

definition getTotAcceptanceRatio :: "static_counters \<Rightarrow> double" where
  "getTotAcceptanceRatio g =
     (if totAttempted g = 0 then Finite 0
      else double_div (to_double (totAccepted g)) (to_double (totAttempted g)))"

text \<open>
  An element of a \<^verbatim>\<open>DynamicArray <uint32,1>\<close> read at an \<open>int\<close> index. The header shows no
  bounds check; a read outside the array is outside the model and is the value \<open>None\<close>.
\<close>

definition array_at :: "uint32 list \<Rightarrow> int \<Rightarrow> uint32 option" where
  "array_at a n = (if 0 \<le> n \<and> n < int (length a) then Some (a ! nat n) else None)"

text \<open>
  \<^verbatim>\<open>return (numAttemptedLevel(n) == 0 ? 0.0 :
            1.0*numAcceptedLevel(n)/(1.0*numAttemptedLevel(n)));\<close>
  \<open>numAcceptedLevel(n)\<close> is read only in the second branch.
\<close>

definition getAcceptanceRatioLevel :: "move_counters \<Rightarrow> int \<Rightarrow> double option" where
  "getAcceptanceRatioLevel m n =
     (case array_at (numAttemptedLevel m) n of
        None \<Rightarrow> None
      | Some att \<Rightarrow>
          if att = 0 then Some (Finite 0)
          else (case array_at (numAcceptedLevel m) n of
                  None \<Rightarrow> None
                | Some acc \<Rightarrow> Some (double_div (to_double acc) (to_double att))))"

text \<open>\<^verbatim>\<open>void resetTotAccept() { totAccepted = totAttempted = 0; }\<close>\<close>

definition resetTotAccept :: "static_counters \<Rightarrow> static_counters" where
  "resetTotAccept g = g\<lparr>totAttempted := 0, totAccepted := 0\<rparr>"

text \<open>\<^verbatim>\<open>void resetAccept() { numAccepted = numAttempted = 0; }\<close>\<close>

definition resetAccept :: "move_counters \<Rightarrow> move_counters" where
  "resetAccept m = m\<lparr>numAttempted := 0, numAccepted := 0\<rparr>"


section \<open>Setting a parameter (setup.h, class Parameters)\<close>

text \<open>\<^verbatim>\<open>enum ParamState {UNSET,DEFAULTED,SET};\<close>\<close>

datatype ParamState = UNSET | DEFAULTED | SET

text \<open>
  A \<open>po::variable_value\<close> of Boost: a \<open>boost::any\<close>, empty or holding a value, and the
  flag \<open>defaulted\<close>. The values of all parameter types form the type \<open>'v\<close>.
\<close>

record 'v variable_value =
  any_value :: "'v option"
  defaulted :: bool

text \<open>
  The maps of the class. \<open>'t\<close> stands for a \<open>type_info\<close>; the entry of \<open>extractor\<close> (the member
  \<open>extract\<close>, a command name here) is the printer the header builds from the template
  argument, so it is determined by that type.
\<close>

record ('v, 't) Parameters =
  params :: "string \<rightharpoonup> 'v variable_value"
  type :: "string \<rightharpoonup> 't"
  pClass :: "string \<rightharpoonup> string"
  state :: "string \<rightharpoonup> ParamState"
  shortName :: "string \<rightharpoonup> string"
  helpMessage :: "string \<rightharpoonup> string"
  extractor :: "string \<rightharpoonup> 't"

text \<open>\<open>std::map::emplace\<close> keeps the entry of a key that is already present.\<close>

definition emplace :: "('k \<rightharpoonup> 'a) \<Rightarrow> 'k \<Rightarrow> 'a \<Rightarrow> ('k \<rightharpoonup> 'a)" where
  "emplace m k a = (case m k of None \<Rightarrow> m(k \<mapsto> a) | Some _ \<Rightarrow> m)"

text \<open>
  \<open>state[key]\<close> read: \<open>std::map::operator[]\<close> inserts a value-initialised entry for a
  missing key, which for the enum is its first enumerator \<open>UNSET\<close>, and returns the entry.
\<close>

definition state_index :: "(string \<rightharpoonup> ParamState) \<Rightarrow> string \<Rightarrow> ParamState \<times> (string \<rightharpoonup> ParamState)" where
  "state_index st key =
     (case st key of None \<Rightarrow> (UNSET, st(key \<mapsto> UNSET)) | Some s \<Rightarrow> (s, st))"

text \<open>
  \<open>Parameters::set(const string& key, const Ttype val)\<close>, with the template argument
  passed as \<open>T\<close>. \<open>po::notify\<close> runs the notifiers of the stored values; a value built by
  \<open>po::variable_value(val, false)\<close> has none, so the call changes nothing.
\<close>

definition set_value :: "'t \<Rightarrow> string \<Rightarrow> 'v \<Rightarrow> ('v, 't) Parameters \<Rightarrow> ('v, 't) Parameters" where
  "set_value T key val P =
     (let P1 =
        (case params P key of
           Some v \<Rightarrow> P\<lparr>params := (params P)(key \<mapsto> v\<lparr>any_value := Some val\<rparr>)\<rparr>
         | None \<Rightarrow>
             P\<lparr>params := (params P)(key \<mapsto> \<lparr>any_value = Some val, defaulted = False\<rparr>),
               type := emplace (type P) key T,
               extractor := emplace (extractor P) key T\<rparr>)
      in P1\<lparr>state := (state P1)(key \<mapsto> SET)\<rparr>)"

text \<open>
  A \<open>pt::ptree\<close> of Boost, seen through the two members the header calls: \<open>count(key)\<close>,
  the number of children named \<open>key\<close>, and \<open>get<Ttype>(key)\<close>, which returns the
  converted value or throws (\<open>ptree_bad_path\<close>, \<open>ptree_bad_data\<close>): \<open>None\<close>.
\<close>

record ('v, 't) ptree =
  pt_count :: "string \<Rightarrow> nat"
  pt_get :: "'t \<Rightarrow> string \<Rightarrow> 'v option"

text \<open>
  How a call ends: it returns, or an exception leaves it. Either way the object is in the
  state given.
\<close>

datatype 'a outcome = Returns 'a | Throws 'a

text \<open>
  \<open>Parameters::set(const string& key, const pt::ptree &xml)\<close>:
  \<^verbatim>\<open>
    if (!xml.count(key))
        return;
    /* command line overrides xml file */
    if (state[key] == UNSET || state[key] == DEFAULTED) {
        set<Ttype>(key,xml.get<Ttype>(key));
        state[key] = SET;
    }
  \<close>
\<close>

definition set_xml ::
  "'t \<Rightarrow> string \<Rightarrow> ('v, 't) ptree \<Rightarrow> ('v, 't) Parameters \<Rightarrow> ('v, 't) Parameters outcome" where
  "set_xml T key xml P =
     (if pt_count xml key = 0 then Returns P
      else
        (case state_index (state P) key of
           (s, st1) \<Rightarrow>
             let P1 = P\<lparr>state := st1\<rparr> in
             if s = UNSET \<or> s = DEFAULTED then
               (case pt_get xml T key of
                  None \<Rightarrow> Throws P1
                | Some val \<Rightarrow>
                    let P2 = set_value T key val P1
                    in Returns (P2\<lparr>state := (state P2)(key \<mapsto> SET)\<rparr>))
             else Returns P1))"

text \<open>The state of a parameter as \<open>state[key]\<close> reads it: \<open>UNSET\<close> for a key not in the map.\<close>

definition state_of :: "('v, 't) Parameters \<Rightarrow> string \<Rightarrow> ParamState" where
  "state_of P key = fst (state_index (state P) key)"

text \<open>The object a call leaves behind, however it ends.\<close>

fun after :: "'a outcome \<Rightarrow> 'a" where
  "after (Returns x) = x"
| "after (Throws x) = x"

text \<open>The value stored for a key, if any.\<close>

definition stored_value :: "('v, 't) Parameters \<Rightarrow> string \<Rightarrow> 'v option" where
  "stored_value P key = (case params P key of None \<Rightarrow> None | Some v \<Rightarrow> any_value v)"


section \<open>The worldline configuration and the scaffold of a move\<close>

text \<open>
  move.h declares \<open>attemptMove\<close> and \<open>undoMove\<close> pure virtual and \<open>keepMove\<close> virtual.
  The one body it holds is \<open>SwapBreakMove::undoMove\<close>, which is empty. The other
  bodies, the class \<open>Path\<close> and the random number generator are in files that are not
  among the sources. This section and the next model them from the specification.
\<close>

text \<open>
  Modelled from the spec: \<open>beadLocator\<close> is declared in common.h (missing). The
  specification describes a bead locator as a coordinate (slice, index) with a sentinel
  \<open>NONE\<close>, which is \<open>None\<close> of \<open>beadLocator option\<close> here.
\<close>

type_synonym beadLocator = "nat \<times> nat"

text \<open>Modelled from the spec: \<open>dVec\<close> (common.h, missing), a real vector.\<close>

type_synonym dVec = "real list"

text \<open>Modelled from the spec: \<open>iVec\<close> (common.h, missing), an integer vector.\<close>

type_synonym iVec = "int list"

text \<open>
  Modelled from the spec: the class \<open>Path\<close> (missing). The fields are what the
  specification says a move reads and writes: the position of each bead, the links
  \<open>next(b)\<close> and \<open>prev(b)\<close> (\<open>next\<close> is a keyword here, hence \<open>next_bead\<close>), the
  bead-on flags, the worm as absent or a pair (head, tail), the periodic reduction
  \<open>boxPut\<close> and the box lengths \<open>box.side\<close>.
\<close>

record Path =
  pos :: "beadLocator \<Rightarrow> dVec"
  next_bead :: "beadLocator \<Rightarrow> beadLocator option"
  prev_bead :: "beadLocator \<Rightarrow> beadLocator option"
  beadOn :: "beadLocator \<Rightarrow> bool"
  worm :: "(beadLocator \<times> beadLocator) option"
  boxPut :: "dVec \<Rightarrow> dVec"
  side :: dVec

text \<open>
  Modelled from the spec: the writes a move makes to \<open>Path\<close> (the bodies of
  \<open>updateBead\<close>, \<open>setNext\<close>, \<open>setPrev\<close>, \<open>addNextBead\<close>, \<open>delBead\<close>, \<open>makeLink\<close>,
  \<open>breakLink\<close> and of the worm update are missing). Each is a write to one location:
  a position, a link, a bead-on flag or the worm endpoints. The composite operations
  are sequences of them.
\<close>

datatype mutation =
    UpdateBead beadLocator dVec
  | SetNext beadLocator "beadLocator option"
  | SetPrev beadLocator "beadLocator option"
  | SetBeadOn beadLocator bool
  | SetWorm "(beadLocator \<times> beadLocator) option"

text \<open>
  Modelled from the spec: the effect of each write on \<open>Path\<close> (bodies missing): the one
  location gets the new value, every other location and field keeps its own.
\<close>

fun apply_mutation :: "mutation \<Rightarrow> Path \<Rightarrow> Path" where
  "apply_mutation (UpdateBead b r) p = p\<lparr>pos := (pos p)(b := r)\<rparr>"
| "apply_mutation (SetNext b n) p = p\<lparr>next_bead := (next_bead p)(b := n)\<rparr>"
| "apply_mutation (SetPrev b n) p = p\<lparr>prev_bead := (prev_bead p)(b := n)\<rparr>"
| "apply_mutation (SetBeadOn b on) p = p\<lparr>beadOn := (beadOn p)(b := on)\<rparr>"
| "apply_mutation (SetWorm w) p = p\<lparr>worm := w\<rparr>"

text \<open>
  Modelled from the spec: the scratch of a move (filled by the missing \<open>attemptMove\<close>
  bodies). Before a location is written its original value is recorded, "in order of
  touch": \<open>saved m p\<close> is the entry for the write \<open>m\<close> on the configuration \<open>p\<close>, the
  location together with the value it holds.
\<close>

fun saved :: "mutation \<Rightarrow> Path \<Rightarrow> mutation" where
  "saved (UpdateBead b r) p = UpdateBead b (pos p b)"
| "saved (SetNext b n) p = SetNext b (next_bead p b)"
| "saved (SetPrev b n) p = SetPrev b (prev_bead p b)"
| "saved (SetBeadOn b on) p = SetBeadOn b (beadOn p b)"
| "saved (SetWorm w) p = SetWorm (worm p)"

text \<open>
  Modelled from the spec: steps 2 and 3 of the scaffold (missing bodies), "record original
  state into scratch buffers" and "apply the proposed mutation to Path". The writes are
  made in order; the entries are appended to the scratch \<open>J\<close>.
\<close>

fun tentative :: "mutation list \<Rightarrow> Path \<Rightarrow> mutation list \<Rightarrow> Path \<times> mutation list" where
  "tentative [] p J = (p, J)"
| "tentative (m # ms) p J = tentative ms (apply_mutation m p) (J @ [saved m p])"

text \<open>
  Modelled from the spec: what \<open>undoMove\<close> (missing bodies) does to \<open>Path\<close>, "restore all
  saved positions, restore link graph, restore worm endpoints, restore bead-on flags".
  The entries are written back last first, as the design notes describe the scratch: a
  journal of (location, old value) entries that undo replays in reverse.
\<close>

definition restore :: "mutation list \<Rightarrow> Path \<Rightarrow> Path" where
  "restore J p = fold apply_mutation (rev J) p"

text \<open>
  Modelled from the spec: the generator \<open>MTRand\<close> (missing), of which the specification
  uses a uniform draw \<open>rand()\<close> and a normal draw \<open>randNorm(mu, sigma)\<close>. Its state is the
  sequence of values it is going to return and the number of draws made.
\<close>

record MTRand =
  uniform_draws :: "nat \<Rightarrow> real"
  normal_draws :: "nat \<Rightarrow> real"
  drawn :: nat

text \<open>Modelled from the spec: \<open>MTRand::rand\<close> (missing), the next uniform draw.\<close>

definition rand :: "MTRand \<Rightarrow> real \<times> MTRand" where
  "rand g = (uniform_draws g (drawn g), g\<lparr>drawn := Suc (drawn g)\<rparr>)"

text \<open>
  Modelled from the spec: \<open>MTRand::randNorm\<close> (missing), the next normal draw of mean
  \<open>mu\<close> and width \<open>sigma\<close>.
\<close>

definition randNorm :: "real \<Rightarrow> real \<Rightarrow> MTRand \<Rightarrow> real \<times> MTRand" where
  "randNorm mu sigma g = (mu + sigma * normal_draws g (drawn g), g\<lparr>drawn := Suc (drawn g)\<rparr>)"

text \<open>
  Modelled from the spec: why a move stops before its proposal is complete (tested in the
  missing \<open>attemptMove\<close> bodies). The first four are the conditions that make a move
  invalid in the current configuration, as the specification lists them under soft
  rejection; the wrong sector, the fifth of that list, is tested by the scaffold itself.
  The last is the rejection of a level of the bisection move, which "falls through to
  undo".
\<close>

datatype early_stop =
    InsufficientSlices
  | EndpointsTooClose
  | ZeroNormalization
  | ExcessWinding
  | LevelRejected

text \<open>
  Modelled from the spec: what distinguishes one concrete move from another (the missing
  \<open>attemptMove\<close> and \<open>keepMove\<close> bodies). \<open>moveClass\<close> is the class of move.h the
  move is an instance of. \<open>operateOnConfig\<close> and \<open>variableLength\<close> are the two public
  fields of move.h. \<open>guard\<close> is the test of step 1 on the configuration.
  \<open>propose\<close> is the selection of the geometry: the writes it asks for, in order, and
  whether it stopped on the way (a vanishing normalization, an excess winding, a
  rejected level), in which case the writes are those made up to there.
  \<open>logAcceptance\<close> is the log-acceptance \<open>a\<close> of step 4 for the old and the new
  configuration. \<open>wormUpdate\<close> is the optional update of the head and tail references in
  \<open>keepMove\<close>.
\<close>

record move =
  moveClass :: move_class
  operateOnConfig :: ensemble
  variableLength :: bool
  guard :: "Path \<Rightarrow> early_stop option"
  propose :: "Path \<Rightarrow> MTRand \<Rightarrow> (mutation list \<times> early_stop option) \<times> MTRand"
  logAcceptance :: "Path \<Rightarrow> Path \<Rightarrow> real"
  wormUpdate :: "Path \<Rightarrow> (beadLocator \<times> beadLocator) option option"

text \<open>
  Modelled from the spec: everything a call of a move reads and writes. \<open>path\<close> and
  \<open>random\<close> are the references of move.h to the objects owned elsewhere, \<open>counters\<close>
  and \<open>totals\<close> the counters of the instance and of the class, \<open>success\<close>, \<open>winding\<close> and
  \<open>cumrho0\<close> the fields of move.h of these names; \<open>originals\<close> is the scratch with the
  saved values (\<open>originalPos\<close>, \<open>oldBeadOn\<close> and the saved links and endpoints), whose layout
  is fixed by the missing bodies.
\<close>

record move_state =
  path :: Path
  random :: MTRand
  counters :: move_counters
  totals :: static_counters
  success :: bool
  originals :: "mutation list"
  winding :: "iVec list"
  cumrho0 :: "real list"

text \<open>
  Modelled from the spec: the sector of a configuration (held by the missing \<open>Path\<close>):
  diagonal when there is no worm, off-diagonal when there is one.
\<close>

definition sector :: "Path \<Rightarrow> ensemble" where
  "sector p = (if worm p = None then DIAGONAL else OFFDIAGONAL)"

text \<open>
  Modelled from the spec: the sector test of the guard (missing \<open>attemptMove\<close> bodies). A
  move may run when it declares \<open>ANY\<close> or the sector of the configuration.
\<close>

definition sector_allowed :: "ensemble \<Rightarrow> Path \<Rightarrow> bool" where
  "sector_allowed e p = (e = ANY \<or> e = sector p)"

text \<open>
  Modelled from the spec: the test of step 4 (missing \<open>attemptMove\<close> bodies), "accept iff
  \<open>log(u) < a\<close>" for a uniform draw \<open>u\<close> of [0,1). The logarithm of a draw of 0 is minus
  infinity, below every \<open>a\<close>.
\<close>

definition metropolis_accepts :: "real \<Rightarrow> real \<Rightarrow> bool" where
  "metropolis_accepts u a = (u \<le> 0 \<or> ln u < a)"

text \<open>
  Modelled from the spec: \<open>keepMove\<close> (body missing), "update counters, clear transient
  flags, optionally update Path head/tail refs".
\<close>

definition keepMove :: "move \<Rightarrow> move_state \<Rightarrow> move_state" where
  "keepMove M s =
     s\<lparr> counters := (counters s)\<lparr>numAccepted := numAccepted (counters s) + 1\<rparr>,
        totals := (totals s)\<lparr>totAccepted := totAccepted (totals s) + 1\<rparr>,
        success := True,
        path := (case wormUpdate M (path s) of
                   None \<Rightarrow> path s
                 | Some w \<Rightarrow> (path s)\<lparr>worm := w\<rparr>) \<rparr>"

text \<open>
  \<open>SwapBreakMove::undoMove\<close>, defined in move.h: \<^verbatim>\<open>void undoMove(){};\<close>. The body is empty
  and nothing changes.
\<close>

definition SwapBreakMove_undoMove :: "move_state \<Rightarrow> move_state" where
  "SwapBreakMove_undoMove s = s"

text \<open>
  Modelled from the spec: \<open>undoMove\<close> of the classes whose body is missing: the saved
  values are written back. For \<open>SwapBreakMove\<close> it is the empty body of the header.
\<close>

definition undoMove :: "move \<Rightarrow> move_state \<Rightarrow> move_state" where
  "undoMove M s =
     (if moveClass M = SwapBreakMove then SwapBreakMove_undoMove s
      else s\<lparr> path := restore (originals s) (path s), success := False \<rparr>)"

text \<open>
  Modelled from the spec: when a move makes its proposed writes (missing \<open>attemptMove\<close>
  bodies). The scaffold makes them before the Metropolis test (step 3, "apply the proposed
  mutation to Path"). Of \<open>SwapBreakMove\<close> the specification says that its "rejection
  paths never mutate", which is why its undo can be empty: it makes its writes once
  the test has accepted. The design notes of the specification leave open whether the
  program does so.
\<close>

definition writes_before_test :: "move \<Rightarrow> bool" where
  "writes_before_test M = (moveClass M \<noteq> SwapBreakMove)"

text \<open>
  Modelled from the spec: \<open>attemptMove\<close> (bodies missing), the internal scaffold of the
  specification. The attempt is counted. Step 1 (guard) rejects when the sector is wrong
  or a constraint cannot be met. Steps 2 and 3 record the original values and make the
  proposed writes (a move that writes only after the test keeps them for then); a proposal
  that stopped on the way is reverted and rejected. Step 4 is the Metropolis test with a
  uniform draw, between the configuration at entry and the proposed one. Step 5 calls
  \<open>keepMove\<close> on acceptance, on the proposed configuration, and \<open>undoMove\<close> on rejection.
  The result is the \<open>bool\<close> that the declaration in move.h returns, with the state the
  call leaves.
\<close>

definition attemptMove :: "move \<Rightarrow> move_state \<Rightarrow> bool \<times> move_state" where
  "attemptMove M s =
     (let s0 = s\<lparr> counters := (counters s)\<lparr>numAttempted := numAttempted (counters s) + 1\<rparr>,
                  totals := (totals s)\<lparr>totAttempted := totAttempted (totals s) + 1\<rparr>,
                  success := False \<rparr>
      in if \<not> sector_allowed (operateOnConfig M) (path s0) then (False, s0)
         else
           (case guard M (path s0) of
              Some c \<Rightarrow> (False, s0)
            | None \<Rightarrow>
                (case propose M (path s0) (random s0) of
                   ((ms, stop), g1) \<Rightarrow>
                     (case tentative ms (path s0) [] of
                        (p1, J) \<Rightarrow>
                          let s1 = (if writes_before_test M
                                    then s0\<lparr>path := p1, random := g1, originals := J\<rparr>
                                    else s0\<lparr>random := g1\<rparr>) in
                          (case stop of
                             Some c \<Rightarrow> (False, undoMove M s1)
                           | None \<Rightarrow>
                               (case rand g1 of
                                  (u, g2) \<Rightarrow>
                                    if metropolis_accepts u (logAcceptance M (path s0) p1)
                                    then (True, keepMove M (s1\<lparr>path := p1, random := g2\<rparr>))
                                    else (False, undoMove M (s1\<lparr>random := g2\<rparr>))))))))"


section \<open>The free-particle samplers\<close>

text \<open>
  Modelled from the spec: the simulation constants that the samplers read (the class of
  constants is missing): the imaginary-time step \<open>tau\<close> and \<open>Lambda\<close>.
\<close>

record constants =
  tau :: real
  Lambda :: real

text \<open>
  Modelled from the spec: the one member of the action (class \<open>ActionBase\<close>, missing) that
  the winding sampler consumes, the free-particle weight \<open>rho0\<close> of a separation, a number
  of slices and a winding vector. It is a parameter: the specification gives it up to a
  factor, and the value the program computes is a double.
\<close>

record Action =
  rho0 :: "dVec \<Rightarrow> int \<Rightarrow> iVec \<Rightarrow> real"

text \<open>
  Modelled from the spec: the componentwise sum of two \<open>dVec\<close> (common.h, missing).
\<close>

definition vadd :: "dVec \<Rightarrow> dVec \<Rightarrow> dVec" where
  "vadd a b = map2 (+) a b"

text \<open>
  Modelled from the spec: the componentwise difference of two \<open>dVec\<close> (common.h, missing).
\<close>

definition vsub :: "dVec \<Rightarrow> dVec \<Rightarrow> dVec" where
  "vsub a b = map2 (-) a b"

text \<open>Modelled from the spec: a \<open>dVec\<close> times a scalar (common.h, missing).\<close>

definition vscale :: "real \<Rightarrow> dVec \<Rightarrow> dVec" where
  "vscale f a = map ((*) f) a"

text \<open>
  Modelled from the spec: a Gaussian vector \<open>mu + N(0, sigma^2 I)\<close>, one normal draw for
  each component (part of the missing sampler bodies).
\<close>

fun randNormVec :: "dVec \<Rightarrow> real \<Rightarrow> MTRand \<Rightarrow> dVec \<times> MTRand" where
  "randNormVec [] sigma g = ([], g)"
| "randNormVec (m # ms) sigma g =
     (case randNorm m sigma g of
        (x, g1) \<Rightarrow> (case randNormVec ms sigma g1 of (xs, g2) \<Rightarrow> (x # xs, g2)))"

text \<open>
  Modelled from the spec: the periodic-image separation of two beads, as the missing body
  of \<open>sampleWindingSector\<close> computes it before it weighs the winding vectors.
\<close>

definition separation :: "move_state \<Rightarrow> beadLocator \<Rightarrow> beadLocator \<Rightarrow> dVec" where
  "separation s b0 b1 = boxPut (path s) (vsub (pos (path s) b1) (pos (path s) b0))"

text \<open>
  Modelled from the spec: the running sums of the weights, \<open>cumrho0[i]\<close> before the
  normalization (part of the missing body of \<open>sampleWindingSector\<close>).
\<close>

fun partial_sums :: "real \<Rightarrow> real list \<Rightarrow> real list" where
  "partial_sums acc [] = []"
| "partial_sums acc (x # xs) = (acc + x) # partial_sums (acc + x) xs"

text \<open>
  Modelled from the spec: \<open>sampleWindingSector\<close> (body missing). The weight of every
  winding vector for the periodic-image separation of the two beads; \<open>cumrho0\<close> becomes
  the running sums divided by their total; the sector is tower-sampled with one uniform
  draw (the first entry of \<open>cumrho0\<close> above the draw); the total is returned with it,
  as the declaration in move.h returns it through its \<open>double &\<close>. When the weights sum
  to zero (or there is no winding vector to choose from) the sampler fails and the caller
  rejects: \<open>None\<close>.
\<close>

definition sampleWindingSector ::
  "Action \<Rightarrow> beadLocator \<Rightarrow> beadLocator \<Rightarrow> int \<Rightarrow> move_state
     \<Rightarrow> (iVec \<times> real) option \<times> move_state" where
  "sampleWindingSector A startBead endBead stageLength s =
     (let p = path s;
          delta = boxPut p (vsub (pos p endBead) (pos p startBead));
          weights = map (rho0 A delta stageLength) (winding s);
          totrho0 = sum_list weights
      in if winding s = [] \<or> totrho0 = 0 then (None, s)
         else
           (case rand (random s) of
              (u, g) \<Rightarrow>
                let cdf = map (\<lambda>x. x / totrho0) (partial_sums 0 weights);
                    i = min (length (takeWhile (\<lambda>c. c \<le> u) cdf)) (length (winding s) - 1)
                in (Some (winding s ! i, totrho0), s\<lparr>random := g, cumrho0 := cdf\<rparr>)))"

text \<open>
  Modelled from the spec: \<open>newStagingPosition\<close>, first overload (body missing). With
  \<open>r0\<close> the position of the bead sampled last, \<open>r1\<close> that of the end bead and \<open>delta\<close>
  their periodic-image separation, the mean is \<open>r0 + delta/(L - k + 1)\<close>, the variance
  \<open>2 Lambda tau (L - k)/(L - k + 1)\<close>, and the draw is reduced into the box.
\<close>

definition newStagingPosition ::
  "constants \<Rightarrow> beadLocator \<Rightarrow> beadLocator \<Rightarrow> int \<Rightarrow> int \<Rightarrow> move_state \<Rightarrow> dVec \<times> move_state" where
  "newStagingPosition c neighborIndex endIndex stageLength k s =
     (let p = path s;
          r0 = pos p neighborIndex;
          r1 = pos p endIndex;
          delta = boxPut p (vsub r1 r0);
          left = real_of_int (stageLength - k);
          mu = vadd r0 (vscale (1 / (left + 1)) delta);
          sigma = sqrt (2 * Lambda c * tau c * (left / (left + 1)))
      in (case randNormVec mu sigma (random s) of
            (x, g) \<Rightarrow> (boxPut p x, s\<lparr>random := g\<rparr>)))"

text \<open>
  Modelled from the spec: \<open>newStagingPosition\<close>, second overload (body missing), which
  first samples a winding image of the end bead and adds the box lengths times the
  winding vector to the separation. The winding vector is returned with the position, as
  the declaration in move.h returns it through its \<open>iVec &\<close>. When the winding sampler
  fails there is no position: \<open>None\<close>.
\<close>

definition newStagingPosition_wind ::
  "constants \<Rightarrow> Action \<Rightarrow> beadLocator \<Rightarrow> beadLocator \<Rightarrow> int \<Rightarrow> int \<Rightarrow> move_state
     \<Rightarrow> (dVec \<times> iVec) option \<times> move_state" where
  "newStagingPosition_wind c A neighborIndex endIndex stageLength k s =
     (case sampleWindingSector A neighborIndex endIndex (stageLength - k + 1) s of
        (None, s1) \<Rightarrow> (None, s1)
      | (Some (wind, totrho0), s1) \<Rightarrow>
          let p = path s1;
              r0 = pos p neighborIndex;
              r1 = pos p endIndex;
              delta = vadd (boxPut p (vsub r1 r0)) (map2 (\<lambda>l w. l * real_of_int w) (side p) wind);
              left = real_of_int (stageLength - k);
              mu = vadd r0 (vscale (1 / (left + 1)) delta);
              sigma = sqrt (2 * Lambda c * tau c * (left / (left + 1)))
          in (case randNormVec mu sigma (random s1) of
                (x, g) \<Rightarrow> (Some (boxPut p x, wind), s1\<lparr>random := g\<rparr>)))"

text \<open>
  Modelled from the spec: a bead shifted along the links (\<open>Path::next\<close> and \<open>Path::prev\<close>
  with a count, missing); there is none when a link on the way is \<open>NONE\<close>.
\<close>

fun shifted :: "(beadLocator \<Rightarrow> beadLocator option) \<Rightarrow> nat \<Rightarrow> beadLocator \<Rightarrow> beadLocator option" where
  "shifted link 0 b = Some b"
| "shifted link (Suc n) b = (case link b of None \<Rightarrow> None | Some b' \<Rightarrow> shifted link n b')"

text \<open>
  Modelled from the spec: \<open>newBisectionPosition\<close> (body missing). For a bead at level
  \<open>l\<close>, with \<open>shift = 2^l\<close>: the mean is the midpoint of the beads \<open>shift\<close> links back and
  \<open>shift\<close> links forward, periodic-corrected, and the variance is \<open>Lambda tau shift\<close>.
  Without one of the two beads there is no position: \<open>None\<close>.
\<close>

definition newBisectionPosition ::
  "constants \<Rightarrow> beadLocator \<Rightarrow> int \<Rightarrow> move_state \<Rightarrow> dVec option \<times> move_state" where
  "newBisectionPosition c beadIndex level s =
     (let p = path s; shift = 2 ^ nat level
      in (case (shifted (prev_bead p) shift beadIndex, shifted (next_bead p) shift beadIndex) of
            (Some b0, Some b1) \<Rightarrow>
              let r0 = pos p b0;
                  delta = boxPut p (vsub (pos p b1) r0);
                  mu = vadd r0 (vscale (1 / 2) delta);
                  sigma = sqrt (Lambda c * tau c * real shift)
              in (case randNormVec mu sigma (random s) of
                    (x, g) \<Rightarrow> (Some x, s\<lparr>random := g\<rparr>))
          | _ \<Rightarrow> (None, s)))"

text \<open>
  Modelled from the spec: \<open>newFreeParticlePosition\<close> (body missing), a Gaussian step of
  width \<open>sqrt(2 Lambda tau)\<close> centred on the position of the neighbouring bead.
\<close>

definition newFreeParticlePosition ::
  "constants \<Rightarrow> beadLocator \<Rightarrow> move_state \<Rightarrow> dVec \<times> move_state" where
  "newFreeParticlePosition c neighborIndex s =
     (case randNormVec (pos (path s) neighborIndex) (sqrt (2 * Lambda c * tau c)) (random s) of
        (x, g) \<Rightarrow> (x, s\<lparr>random := g\<rparr>))"


section \<open>Concrete inputs\<close>

text \<open>A move that has not been attempted yet, and one with three of four attempts accepted.\<close>

definition fresh_counters :: move_counters where
  "fresh_counters =
     \<lparr>numAccepted = 0, numAttempted = 0, numAcceptedLevel = [0, 3], numAttemptedLevel = [0, 4]\<rparr>"

definition used_counters :: move_counters where
  "used_counters =
     \<lparr>numAccepted = 3, numAttempted = 4, numAcceptedLevel = [0, 3], numAttemptedLevel = [0, 4]\<rparr>"

text \<open>
  Two parameters of type \<open>double\<close>: \<open>tau\<close> was set on the command line, \<open>beta\<close> has its
  default. The xml file gives the value 5 for both.
\<close>

definition example_parameters :: "(nat, string) Parameters" where
  "example_parameters =
     \<lparr> params = [''tau'' \<mapsto> \<lparr>any_value = Some 1, defaulted = False\<rparr>,
                 ''beta'' \<mapsto> \<lparr>any_value = Some 2, defaulted = False\<rparr>],
       type = [''tau'' \<mapsto> ''double'', ''beta'' \<mapsto> ''double''],
       pClass = Map.empty,
       state = [''tau'' \<mapsto> SET, ''beta'' \<mapsto> DEFAULTED],
       shortName = Map.empty,
       helpMessage = Map.empty,
       extractor = [''tau'' \<mapsto> ''double'', ''beta'' \<mapsto> ''double''] \<rparr>"

definition example_xml :: "(nat, string) ptree" where
  "example_xml =
     \<lparr> pt_count = (\<lambda>k. if k = ''tau'' \<or> k = ''beta'' then 1 else 0),
       pt_get = (\<lambda>T k. if k = ''tau'' \<or> k = ''beta'' then Some 5 else None) \<rparr>"

text \<open>
  One particle on two time slices, a closed worldline in a box of length 1, and a move
  state that holds it. The generator returns 1/2 for every uniform draw.
\<close>

definition example_path :: Path where
  "example_path =
     \<lparr> pos = (\<lambda>b. if b = (1, 0) then [1 / 10] else [0]),
       next_bead = (\<lambda>b. if b = (0, 0) then Some (1, 0) else if b = (1, 0) then Some (0, 0) else None),
       prev_bead = (\<lambda>b. if b = (0, 0) then Some (1, 0) else if b = (1, 0) then Some (0, 0) else None),
       beadOn = (\<lambda>b. b = (0, 0) \<or> b = (1, 0)),
       worm = None,
       boxPut = (\<lambda>r. r),
       side = [1] \<rparr>"

definition example_state :: move_state where
  "example_state =
     \<lparr> path = example_path,
       random = \<lparr>uniform_draws = (\<lambda>n. 1 / 2), normal_draws = (\<lambda>n. 0), drawn = 0\<rparr>,
       counters = fresh_counters,
       totals = \<lparr>totAccepted = 0, totAttempted = 0\<rparr>,
       success = False,
       originals = [],
       winding = [[0]],
       cumrho0 = [] \<rparr>"

text \<open>
  Four moves on it. The first moves the bead (0,0) twice and is rejected by the
  Metropolis test (\<open>log(1/2)\<close> is not below -1). The second requires a worm, and there is
  none. The third removes a bead and two links and then finds a vanishing normalization.
  The fourth needs more slices than there are.
\<close>

definition example_displace :: move where
  "example_displace =
     \<lparr> moveClass = DisplaceMove, operateOnConfig = ANY, variableLength = False,
       guard = (\<lambda>p. None),
       propose = (\<lambda>p g. (([UpdateBead (0, 0) [1 / 4], UpdateBead (0, 0) [1 / 2]], None), g)),
       logAcceptance = (\<lambda>p p'. - 1),
       wormUpdate = (\<lambda>p. None) \<rparr>"

text \<open>The same move with \<open>a = 0\<close>: the Metropolis test accepts it.\<close>

definition example_displace_accepted :: move where
  "example_displace_accepted = example_displace\<lparr>logAcceptance := (\<lambda>p p'. 0)\<rparr>"

definition example_close :: move where
  "example_close =
     \<lparr> moveClass = CloseMove, operateOnConfig = OFFDIAGONAL, variableLength = True,
       guard = (\<lambda>p. None),
       propose = (\<lambda>p g. (([SetNext (0, 0) None], None), g)),
       logAcceptance = (\<lambda>p p'. 0),
       wormUpdate = (\<lambda>p. Some None) \<rparr>"

definition example_open :: move where
  "example_open =
     \<lparr> moveClass = OpenMove, operateOnConfig = DIAGONAL, variableLength = True,
       guard = (\<lambda>p. None),
       propose = (\<lambda>p g. (([SetBeadOn (1, 0) False, SetNext (0, 0) None, SetPrev (0, 0) None],
                           Some ZeroNormalization), g)),
       logAcceptance = (\<lambda>p p'. 0),
       wormUpdate = (\<lambda>p. Some (Some ((0, 0), (0, 0)))) \<rparr>"

definition example_staging :: move where
  "example_staging =
     \<lparr> moveClass = StagingMove, operateOnConfig = ANY, variableLength = False,
       guard = (\<lambda>p. Some InsufficientSlices),
       propose = (\<lambda>p g. (([UpdateBead (1, 0) [1 / 5]], None), g)),
       logAcceptance = (\<lambda>p p'. 0),
       wormUpdate = (\<lambda>p. None) \<rparr>"


text \<open>
  A swap of the break: the link that leaves (0,0) is cut and the one that leaves (1,0) is
  kept. Once with \<open>a = -1\<close>, which the Metropolis test rejects, and once with \<open>a = 0\<close>,
  which it accepts.
\<close>

definition example_swapbreak :: move where
  "example_swapbreak =
     \<lparr> moveClass = SwapBreakMove, operateOnConfig = ANY, variableLength = False,
       guard = (\<lambda>p. None),
       propose = (\<lambda>p g. (([SetNext (0, 0) None, SetPrev (1, 0) None], None), g)),
       logAcceptance = (\<lambda>p p'. - 1),
       wormUpdate = (\<lambda>p. None) \<rparr>"

definition example_swapbreak_accepted :: move where
  "example_swapbreak_accepted = example_swapbreak\<lparr>logAcceptance := (\<lambda>p p'. 0)\<rparr>"

text \<open>
  Three winding vectors in one dimension, with the weights 1, 2 and 1, and an action all
  of whose weights have underflowed to 0.
\<close>

definition example_winding_state :: move_state where
  "example_winding_state = example_state\<lparr>winding := [[- 1], [0], [1]]\<rparr>"

definition example_action :: Action where
  "example_action = \<lparr> rho0 = (\<lambda>d n w. if w = [0] then 2 else 1) \<rparr>"

definition example_underflow_action :: Action where
  "example_underflow_action = \<lparr> rho0 = (\<lambda>d n w. 0) \<rparr>"


section \<open>The declared sectors\<close>

text \<open>
  Claim C5. Each sector-changing move declares the sector the specification requires: a
  constructor call that omits \<open>_operateOnConfig\<close> builds OpenMove, CanonicalOpenMove and
  InsertMove with \<open>DIAGONAL\<close>, and CloseMove, CanonicalCloseMove, RemoveMove, the four
  Advance/Recede moves, SwapHeadMove and SwapTailMove with \<open>OFFDIAGONAL\<close>, whatever is
  passed for \<open>_varLength\<close>.
\<close>

theorem sector_changing_moves_declare_their_sector:
  "operateOnConfig_arg (constructor_call OpenMove None b) = DIAGONAL
   \<and> operateOnConfig_arg (constructor_call CanonicalOpenMove None b) = DIAGONAL
   \<and> operateOnConfig_arg (constructor_call InsertMove None b) = DIAGONAL
   \<and> operateOnConfig_arg (constructor_call CloseMove None b) = OFFDIAGONAL
   \<and> operateOnConfig_arg (constructor_call CanonicalCloseMove None b) = OFFDIAGONAL
   \<and> operateOnConfig_arg (constructor_call RemoveMove None b) = OFFDIAGONAL
   \<and> operateOnConfig_arg (constructor_call AdvanceHeadMove None b) = OFFDIAGONAL
   \<and> operateOnConfig_arg (constructor_call AdvanceTailMove None b) = OFFDIAGONAL
   \<and> operateOnConfig_arg (constructor_call RecedeHeadMove None b) = OFFDIAGONAL
   \<and> operateOnConfig_arg (constructor_call RecedeTailMove None b) = OFFDIAGONAL
   \<and> operateOnConfig_arg (constructor_call SwapHeadMove None b) = OFFDIAGONAL
   \<and> operateOnConfig_arg (constructor_call SwapTailMove None b) = OFFDIAGONAL"
  by (simp add: constructor_call_def)


section \<open>The acceptance ratios\<close>

lemma to_double_eq_0: "to_double n = 0 \<longleftrightarrow> n = 0"
  by (simp add: to_double_def unsigned_eq_0_iff)

text \<open>Behind the guard the divisor is not zero, and the division is the real quotient.\<close>

lemma to_double_div:
  "att \<noteq> 0 \<Longrightarrow>
   double_div (to_double acc) (to_double att) = Finite (real (unat acc) / real (unat att))"
  by (simp add: double_div_def to_double_eq_0) (simp add: to_double_def)

text \<open>After a reset the ratios are 0.0, since nothing has been attempted.\<close>

lemma ratio_after_reset:
  "getAcceptanceRatio (resetAccept m) = Finite 0
   \<and> getTotAcceptanceRatio (resetTotAccept g) = Finite 0"
  by (simp add: getAcceptanceRatio_def getTotAcceptanceRatio_def resetAccept_def
      resetTotAccept_def)

text \<open>
  Claim C9. The diagnostic accessors never divide by zero. \<open>getAcceptanceRatio\<close> returns
  0.0 when \<open>numAttempted\<close> is 0 and the quotient \<open>numAccepted/numAttempted\<close> otherwise;
  \<open>getTotAcceptanceRatio\<close> returns 0.0 when \<open>totAttempted\<close> is 0 (and the quotient
  otherwise); \<open>getAcceptanceRatioLevel(n)\<close> returns 0.0 when \<open>numAttemptedLevel(n)\<close> is 0
  (and the quotient of the two entries otherwise). No accessor ever yields the NaN or the
  infinity that a division by zero would produce.
\<close>

theorem acceptance_ratios_never_divide_by_zero:
  "(numAttempted m = 0 \<longrightarrow> getAcceptanceRatio m = Finite 0)
   \<and> (numAttempted m \<noteq> 0 \<longrightarrow>
        getAcceptanceRatio m = Finite (real (unat (numAccepted m)) / real (unat (numAttempted m))))
   \<and> (totAttempted g = 0 \<longrightarrow> getTotAcceptanceRatio g = Finite 0)
   \<and> (totAttempted g \<noteq> 0 \<longrightarrow>
        getTotAcceptanceRatio g = Finite (real (unat (totAccepted g)) / real (unat (totAttempted g))))
   \<and> (array_at (numAttemptedLevel m) n = Some 0 \<longrightarrow> getAcceptanceRatioLevel m n = Some (Finite 0))
   \<and> (\<forall>att acc. array_at (numAttemptedLevel m) n = Some att \<and> att \<noteq> 0
          \<and> array_at (numAcceptedLevel m) n = Some acc \<longrightarrow>
        getAcceptanceRatioLevel m n = Some (Finite (real (unat acc) / real (unat att))))
   \<and> getAcceptanceRatio m \<notin> {NaN, PlusInfinity, MinusInfinity}
   \<and> getTotAcceptanceRatio g \<notin> {NaN, PlusInfinity, MinusInfinity}
   \<and> getAcceptanceRatioLevel m n \<notin> {Some NaN, Some PlusInfinity, Some MinusInfinity}"
  by (simp add: getAcceptanceRatio_def getTotAcceptanceRatio_def getAcceptanceRatioLevel_def
      to_double_div split: option.splits)

theorem acceptance_ratios_never_divide_by_zero_witness:
  "getAcceptanceRatio fresh_counters = Finite 0
   \<and> getAcceptanceRatio used_counters = Finite (3 / 4)
   \<and> getTotAcceptanceRatio \<lparr>totAccepted = 0, totAttempted = 0\<rparr> = Finite 0
   \<and> getTotAcceptanceRatio \<lparr>totAccepted = 1, totAttempted = 2\<rparr> = Finite (1 / 2)
   \<and> getAcceptanceRatioLevel used_counters 0 = Some (Finite 0)
   \<and> getAcceptanceRatioLevel used_counters 1 = Some (Finite (3 / 4))"
  using acceptance_ratios_never_divide_by_zero
      [of fresh_counters "\<lparr>totAccepted = 0, totAttempted = 0\<rparr>" 0]
    acceptance_ratios_never_divide_by_zero
      [of used_counters "\<lparr>totAccepted = 1, totAttempted = 2\<rparr>" 1]
    acceptance_ratios_never_divide_by_zero
      [of used_counters "\<lparr>totAccepted = 1, totAttempted = 2\<rparr>" 0]
  by (simp add: fresh_counters_def used_counters_def array_at_def)


section \<open>Parameters set from a value and from the xml file\<close>

lemma state_index_SET: "state_of P key = SET \<Longrightarrow> state_index (state P) key = (SET, state P)"
  by (auto simp: state_of_def state_index_def split: option.splits)

text \<open>A parameter in state \<open>SET\<close>: the call returns and the object is as it was.\<close>

lemma set_xml_SET: "state_of P key = SET \<Longrightarrow> set_xml T key xml P = Returns P"
  by (simp add: set_xml_def state_index_SET)

lemma state_set_value: "state (set_value T key val P) key = Some SET"
  by (simp add: set_value_def Let_def split: option.splits)

lemma stored_set_value: "stored_value (set_value T key val P) key = Some val"
  by (simp add: set_value_def stored_value_def Let_def split: option.splits)

lemma set_xml_Returns_state:
  "pt_count xml key \<noteq> 0 \<Longrightarrow> set_xml T key xml P = Returns P' \<Longrightarrow> state P' key = Some SET"
proof (cases "state P key")
  case None
  then show "pt_count xml key \<noteq> 0 \<Longrightarrow> set_xml T key xml P = Returns P' \<Longrightarrow> ?thesis"
    by (auto simp: set_xml_def state_index_def Let_def split: option.splits)
next
  case (Some s)
  then show "pt_count xml key \<noteq> 0 \<Longrightarrow> set_xml T key xml P = Returns P' \<Longrightarrow> ?thesis"
    by (cases s) (auto simp: set_xml_def state_index_def Let_def split: option.splits)
qed

lemma set_xml_params:
  "params (after (set_xml T key xml P)) \<noteq> params P \<Longrightarrow>
   state_of P key = UNSET \<or> state_of P key = DEFAULTED"
  by (cases "state_of P key") (auto simp: set_xml_SET)

text \<open>
  Claim C10. For every parameter key, \<open>Parameters::set(key, xml-node)\<close> updates the stored
  value only when the parameter's state is \<open>UNSET\<close> or \<open>DEFAULTED\<close>: for a parameter in
  state \<open>SET\<close> the call returns with the whole object unchanged, so a value set from the
  command line is never overridden by the xml file. After a set from a value the
  parameter's state is \<open>SET\<close> and the value is stored; after a set from an xml node that
  holds the key and that returns, the parameter's state is \<open>SET\<close>.
\<close>

theorem xml_never_overrides_a_set_parameter:
  "(state_of P key = SET \<longrightarrow> set_xml T key xml P = Returns P)
   \<and> (params (after (set_xml T key xml P)) \<noteq> params P \<longrightarrow>
        state_of P key = UNSET \<or> state_of P key = DEFAULTED)
   \<and> state (set_value T key val P) key = Some SET
   \<and> stored_value (set_value T key val P) key = Some val
   \<and> (\<forall>P'. pt_count xml key \<noteq> 0 \<and> set_xml T key xml P = Returns P' \<longrightarrow> state P' key = Some SET)"
proof (intro conjI impI allI)
  fix P'
  assume "pt_count xml key \<noteq> 0 \<and> set_xml T key xml P = Returns P'"
  then show "state P' key = Some SET"
    using set_xml_Returns_state [of xml key T P P'] by simp
qed (simp_all add: set_xml_SET set_xml_params state_set_value stored_set_value)

theorem xml_never_overrides_a_set_parameter_witness:
  "set_xml ''double'' ''tau'' example_xml example_parameters = Returns example_parameters
   \<and> stored_value (after (set_xml ''double'' ''tau'' example_xml example_parameters)) ''tau'' = Some 1
   \<and> state_of example_parameters ''beta'' = DEFAULTED
   \<and> stored_value (after (set_xml ''double'' ''beta'' example_xml example_parameters)) ''beta'' = Some 5
   \<and> state (after (set_xml ''double'' ''beta'' example_xml example_parameters)) ''beta'' = Some SET
   \<and> state (set_value ''double'' ''beta'' 7 example_parameters) ''beta'' = Some SET"
  using xml_never_overrides_a_set_parameter [of example_parameters "''tau''" "''double''" example_xml 7]
    xml_never_overrides_a_set_parameter [of example_parameters "''beta''" "''double''" example_xml 7]
  by (simp add: example_parameters_def example_xml_def state_of_def state_index_def set_xml_def
      set_value_def stored_value_def)


section \<open>A rejected move leaves the configuration as it found it\<close>

text \<open>Writing the saved value back undoes a write.\<close>

lemma apply_saved: "apply_mutation (saved m p) (apply_mutation m p) = p"
  by (cases m) simp_all

text \<open>
  The entries recorded along a sequence of writes, replayed last first, lead back to the
  configuration before the first write, also when a location is written more than once.
\<close>

lemma tentative_restore:
  "tentative ms p J = (p', J') \<Longrightarrow> \<exists>K. J' = J @ K \<and> restore K p' = p"
proof (induction ms arbitrary: p J)
  case Nil
  then show ?case by (simp add: restore_def)
next
  case (Cons m ms)
  from Cons.prems have "tentative ms (apply_mutation m p) (J @ [saved m p]) = (p', J')"
    by simp
  from Cons.IH [OF this] obtain K
    where K: "J' = (J @ [saved m p]) @ K" "restore K p' = apply_mutation m p"
    by blast
  have "restore (saved m p # K) p' = p"
    using K(2) by (simp add: restore_def apply_saved)
  with K(1) show ?case by auto
qed

lemma restore_tentative: "tentative ms p [] = (p', J) \<Longrightarrow> restore J p' = p"
  using tentative_restore [of ms p "[]" p' J] by simp

lemma ln_half: "\<not> ln (1 / 2 :: real) < - 1"
proof -
  have "ln (2 :: real) \<le> 2 - 1"
    by (rule ln_le_minus_one) simp
  moreover have "ln (1 / 2 :: real) = - ln 2"
    by (simp add: ln_div)
  ultimately show ?thesis by simp
qed

text \<open>
  The scaffold does change the configuration when it accepts: the bead of the example
  ends at its second proposed position.
\<close>

lemma accepted_move_changes_path:
  "fst (attemptMove example_displace_accepted example_state)
   \<and> pos (path (snd (attemptMove example_displace_accepted example_state))) (0, 0) = [1 / 2]
   \<and> fst (attemptMove example_swapbreak_accepted example_state)
   \<and> next_bead (path (snd (attemptMove example_swapbreak_accepted example_state))) (0, 0) = None"
  by (simp add: attemptMove_def example_displace_accepted_def example_displace_def
      example_swapbreak_accepted_def example_swapbreak_def writes_before_test_def
      example_state_def example_path_def sector_allowed_def rand_def keepMove_def
      metropolis_accepts_def)

text \<open>
  The empty undo of \<open>SwapBreakMove\<close> writes nothing back: whatever the configuration is
  when it is called stays.
\<close>

lemma SwapBreakMove_undoMove_keeps:
  "moveClass M = SwapBreakMove \<Longrightarrow> undoMove M s = s"
  by (simp add: undoMove_def SwapBreakMove_undoMove_def)

text \<open>
  Claim C1. For every move, of whatever class of move.h, whenever \<open>attemptMove\<close> returns
  false, the Path is exactly as it was at entry: the same positions, link graph, worm
  endpoints and bead-on flags. For \<open>SwapBreakMove\<close>, whose undo is the empty body of the
  header, this rests on its writes being made after the test.
  Every invalid condition ends in this rejection and not in an error: the wrong sector, a
  constraint of the guard that cannot be met (insufficient slices, endpoints too close),
  and a condition found while the proposal is built (a vanishing normalization, an excess
  winding).
\<close>

theorem rejected_move_restores_path:
  "(\<not> fst (attemptMove M s) \<longrightarrow> path (snd (attemptMove M s)) = path s)
   \<and> (\<not> sector_allowed (operateOnConfig M) (path s) \<longrightarrow> \<not> fst (attemptMove M s))
   \<and> (guard M (path s) \<noteq> None \<longrightarrow> \<not> fst (attemptMove M s))
   \<and> (snd (fst (propose M (path s) (random s))) \<noteq> None \<longrightarrow> \<not> fst (attemptMove M s))"
  by (auto simp: attemptMove_def Let_def undoMove_def SwapBreakMove_undoMove_def
      writes_before_test_def restore_tentative split: option.splits prod.splits)

theorem rejected_move_restores_path_witness:
  "\<not> fst (attemptMove example_displace example_state)
   \<and> path (snd (attemptMove example_displace example_state)) = example_path
   \<and> \<not> fst (attemptMove example_close example_state)
   \<and> path (snd (attemptMove example_close example_state)) = example_path
   \<and> \<not> fst (attemptMove example_open example_state)
   \<and> path (snd (attemptMove example_open example_state)) = example_path
   \<and> \<not> fst (attemptMove example_staging example_state)
   \<and> path (snd (attemptMove example_staging example_state)) = example_path
   \<and> \<not> fst (attemptMove example_swapbreak example_state)
   \<and> path (snd (attemptMove example_swapbreak example_state)) = example_path"
  using rejected_move_restores_path [of example_displace example_state]
    rejected_move_restores_path [of example_close example_state]
    rejected_move_restores_path [of example_open example_state]
    rejected_move_restores_path [of example_staging example_state]
    rejected_move_restores_path [of example_swapbreak example_state]
    ln_half
  by (simp add: attemptMove_def example_displace_def example_close_def example_open_def
      example_staging_def example_swapbreak_def example_state_def example_path_def
      sector_allowed_def sector_def rand_def metropolis_accepts_def writes_before_test_def)


section \<open>The samplers do not write to the configuration\<close>

lemma path_sampleWindingSector: "path (snd (sampleWindingSector A b0 b1 L s)) = path s"
  by (simp add: sampleWindingSector_def Let_def split: prod.splits)

text \<open>
  Claim C7. The free-particle bridge samplers \<open>newStagingPosition\<close> (both overloads),
  \<open>newBisectionPosition\<close> and \<open>newFreeParticlePosition\<close> are functions of the state of the
  generator and of their inputs: for every call, the Path after the call is the Path
  before it, in every field (positions, links, worm endpoints, bead-on flags).
\<close>

theorem samplers_leave_path_unchanged:
  "path (snd (newStagingPosition c b0 b1 L k s)) = path s
   \<and> path (snd (newStagingPosition_wind c A b0 b1 L k s)) = path s
   \<and> path (snd (newBisectionPosition c b l s)) = path s
   \<and> path (snd (newFreeParticlePosition c b s)) = path s"
proof (intro conjI)
  show "path (snd (newStagingPosition c b0 b1 L k s)) = path s"
    by (simp add: newStagingPosition_def Let_def split: prod.splits)
  show "path (snd (newStagingPosition_wind c A b0 b1 L k s)) = path s"
    using path_sampleWindingSector [of A b0 b1 "L - k + 1" s]
    by (auto simp: newStagingPosition_wind_def Let_def split: prod.splits option.splits)
  show "path (snd (newBisectionPosition c b l s)) = path s"
    by (simp add: newBisectionPosition_def Let_def split: prod.splits option.splits)
  show "path (snd (newFreeParticlePosition c b s)) = path s"
    by (simp add: newFreeParticlePosition_def split: prod.splits)
qed


section \<open>The cumulative distribution of the winding sectors\<close>

lemma length_partial_sums: "length (partial_sums a xs) = length xs"
  by (induction xs arbitrary: a) simp_all

text \<open>With weights that are not negative, no running sum lies below its start.\<close>

lemma partial_sums_lower:
  "\<forall>x \<in> set xs. 0 \<le> x \<Longrightarrow> y \<in> set (partial_sums a xs) \<Longrightarrow> a \<le> y"
proof (induction xs arbitrary: a)
  case Nil
  then show ?case by simp
next
  case (Cons x xs)
  from Cons.prems(2) consider "y = a + x" | "y \<in> set (partial_sums (a + x) xs)"
    by auto
  then show ?case
  proof cases
    case 1
    with Cons.prems(1) show ?thesis by simp
  next
    case 2
    with Cons.IH [of "a + x"] Cons.prems(1) have "a + x \<le> y" by simp
    with Cons.prems(1) show ?thesis by simp
  qed
qed

lemma sorted_partial_sums:
  "\<forall>x \<in> set xs. 0 \<le> x \<Longrightarrow> sorted (partial_sums a xs)"
proof (induction xs arbitrary: a)
  case Nil
  then show ?case by simp
next
  case (Cons x xs)
  then show ?case
    using partial_sums_lower [of xs _ "a + x"] by auto
qed

text \<open>The last running sum is the total.\<close>

lemma last_partial_sums:
  "xs \<noteq> [] \<Longrightarrow> last (partial_sums a xs) = a + sum_list xs"
proof (induction xs arbitrary: a)
  case Nil
  then show ?case by simp
next
  case (Cons x xs)
  show ?case
  proof (cases xs)
    case Nil
    then show ?thesis by simp
  next
    case (Cons y ys)
    then have "partial_sums (a + x) xs \<noteq> []" by simp
    with Cons.IH [of "a + x"] Cons show ?thesis by (simp add: add.assoc)
  qed
qed

lemma sorted_scaled:
  fixes t :: real
  shows "0 \<le> t \<Longrightarrow> sorted ys \<Longrightarrow> sorted (map (\<lambda>x. x / t) ys)"
  by (induction ys) (auto simp: divide_right_mono)

lemma sum_list_all_zero:
  fixes f :: "'a \<Rightarrow> real"
  shows "\<forall>x \<in> set xs. f x = 0 \<Longrightarrow> sum_list (map f xs) = 0"
  by (induction xs) simp_all

text \<open>
  A call that succeeds leaves a distribution that is sorted and ends, in exact
  arithmetic, at 1.
\<close>

lemma sampleWindingSector_success:
  assumes nonneg: "\<forall>w \<in> set (winding s). 0 \<le> rho0 A (separation s b0 b1) L w"
    and ok: "sampleWindingSector A b0 b1 L s = (Some r, s')"
  shows "sorted (cumrho0 s') \<and> cumrho0 s' \<noteq> [] \<and> last (cumrho0 s') = 1"
proof -
  define ws where "ws = map (rho0 A (separation s b0 b1) L) (winding s)"
  define t where "t = sum_list ws"
  from ok have ne: "winding s \<noteq> []" and t0: "t \<noteq> 0"
    and cdf: "cumrho0 s' = map (\<lambda>x. x / t) (partial_sums 0 ws)"
    by (auto simp: sampleWindingSector_def separation_def ws_def t_def Let_def
        split: if_splits prod.splits)
  from nonneg have ws_nonneg: "\<forall>x \<in> set ws. 0 \<le> x"
    by (auto simp: ws_def)
  then have "0 \<le> t"
    unfolding t_def by (simp add: sum_list_nonneg)
  from ne have ws_ne: "ws \<noteq> []" by (simp add: ws_def)
  then have ps_ne: "partial_sums 0 ws \<noteq> []"
    using length_partial_sums [of 0 ws] by auto
  have "sorted (cumrho0 s')"
    unfolding cdf using \<open>0 \<le> t\<close> ws_nonneg by (simp add: sorted_scaled sorted_partial_sums)
  moreover have "last (cumrho0 s') = 1"
    unfolding cdf using ps_ne ws_ne t0 by (simp add: last_map last_partial_sums t_def)
  moreover have "cumrho0 s' \<noteq> []"
    unfolding cdf using ps_ne by simp
  ultimately show ?thesis by simp
qed

text \<open>When every weight is 0 the sampler fails and leaves the state as it was.\<close>

lemma sampleWindingSector_underflow:
  assumes "\<forall>w \<in> set (winding s). rho0 A (separation s b0 b1) L w = 0"
  shows "sampleWindingSector A b0 b1 L s = (None, s)"
proof -
  have "sum_list (map (rho0 A (separation s b0 b1) L) (winding s)) = 0"
    using assms by (rule sum_list_all_zero)
  then show ?thesis
    by (simp add: sampleWindingSector_def separation_def Let_def)
qed

text \<open>
  Claim C8. After every successful call of \<open>sampleWindingSector\<close>, with weights that are
  not negative, \<open>cumrho0\<close> is monotone nondecreasing and its last entry lies in
  [1 - 1e-12, 1 + 1e-12]. When all winding weights have underflowed to zero, the sampler
  signals failure to the caller and writes no distribution: the state, \<open>cumrho0\<close>
  included, is as it was. The arithmetic is that of the reals: the last entry is exactly
  1, and the rounding of the running sums and of the divisions is not modelled.
\<close>

theorem winding_cdf_is_monotone_and_normalised:
  "(\<forall>r s'. (\<forall>w \<in> set (winding s). 0 \<le> rho0 A (separation s b0 b1) L w)
        \<and> sampleWindingSector A b0 b1 L s = (Some r, s') \<longrightarrow>
      sorted (cumrho0 s') \<and> cumrho0 s' \<noteq> []
      \<and> 1 - 1 / 10 ^ 12 \<le> last (cumrho0 s') \<and> last (cumrho0 s') \<le> 1 + 1 / 10 ^ 12)
   \<and> ((\<forall>w \<in> set (winding s). rho0 A (separation s b0 b1) L w = 0) \<longrightarrow>
      sampleWindingSector A b0 b1 L s = (None, s))"
proof (intro conjI allI impI)
  fix r s'
  assume a: "(\<forall>w \<in> set (winding s). 0 \<le> rho0 A (separation s b0 b1) L w)
    \<and> sampleWindingSector A b0 b1 L s = (Some r, s')"
  then have "sorted (cumrho0 s') \<and> cumrho0 s' \<noteq> [] \<and> last (cumrho0 s') = 1"
    using sampleWindingSector_success [of s A b0 b1 L r s'] by simp
  then show "sorted (cumrho0 s')" and "cumrho0 s' \<noteq> []"
    and "1 - 1 / 10 ^ 12 \<le> last (cumrho0 s')" and "last (cumrho0 s') \<le> 1 + 1 / 10 ^ 12"
    by simp_all
next
  assume "\<forall>w \<in> set (winding s). rho0 A (separation s b0 b1) L w = 0"
  then show "sampleWindingSector A b0 b1 L s = (None, s)"
    by (rule sampleWindingSector_underflow)
qed

lemma example_sampleWindingSector:
  "sampleWindingSector example_action (0, 0) (1, 0) 1 example_winding_state =
     (Some ([0], 4),
      example_winding_state
        \<lparr>random := \<lparr>uniform_draws = (\<lambda>n. 1 / 2), normal_draws = (\<lambda>n. 0), drawn = 1\<rparr>,
         cumrho0 := [1 / 4, 3 / 4, 1]\<rparr>)"
  by (simp add: sampleWindingSector_def example_action_def example_winding_state_def
      example_state_def rand_def Let_def)

theorem winding_cdf_is_monotone_and_normalised_witness:
  "cumrho0 (snd (sampleWindingSector example_action (0, 0) (1, 0) 1 example_winding_state))
     = [1 / 4, 3 / 4, 1]
   \<and> sorted (cumrho0 (snd (sampleWindingSector example_action (0, 0) (1, 0) 1 example_winding_state)))
   \<and> last (cumrho0 (snd (sampleWindingSector example_action (0, 0) (1, 0) 1 example_winding_state)))
        \<le> 1 + 1 / 10 ^ 12
   \<and> sampleWindingSector example_underflow_action (0, 0) (1, 0) 1 example_winding_state
        = (None, example_winding_state)"
  using winding_cdf_is_monotone_and_normalised
      [of example_winding_state example_action "(0, 0)" "(1, 0)" 1]
    winding_cdf_is_monotone_and_normalised
      [of example_winding_state example_underflow_action "(0, 0)" "(1, 0)" 1]
    example_sampleWindingSector
  by (simp add: example_action_def example_underflow_action_def)

end
